theory Spec2Isabelle
  imports Main
begin

section \<open>Data model of \<open>runtime/mercury_context.h\<close>\<close>

text \<open>
  Pointers (\<open>MR_Word *\<close>, \<open>MR_Code *\<close>, \<open>MR_MemoryZone *\<close>, \<open>MR_Context *\<close>, ...) are
  addresses. The macros embedded here only copy and compare them; they are
  natural numbers counted in units of the pointed-to type, and \<open>NULL\<close> is 0.
  \<open>MR_Integer\<close> and C's \<open>int\<close> are \<open>int\<close>: the only arithmetic is the decrement of
  \<open>MR_st_count\<close>, which stays between \<open>-1\<close> and its initial value.
\<close>

type_synonym addr = nat

abbreviation (input) MR_NULL :: addr where
  "MR_NULL \<equiv> 0"

text \<open>
  The preprocessor symbols that select the variants of the header. A symbol is
  \<open>True\<close> when it is defined. A field that a variant compiles out stays in the
  records below and is never touched by that variant.
\<close>

record MR_Config =
  MR_THREAD_SAFE :: bool
  MR_HIGHLEVEL_CODE :: bool
  MR_USE_MINIMAL_MODEL_STACK_COPY :: bool
  MR_USE_TRAIL :: bool
  MR_CONSERVATIVE_GC :: bool

text \<open>
  \<open>struct MR_Context_Struct\<close>. The field \<open>MR_ctxt_owner_generator\<close> of the variant
  \<open>MR_USE_MINIMAL_MODEL_OWN_STACKS\<close> is used by no macro of the header and is left
  out.
\<close>

record MR_Context =
  MR_ctxt_id :: string
  MR_ctxt_next :: addr
  MR_ctxt_resume :: addr
  MR_ctxt_owner_thread :: addr
  MR_ctxt_succip :: addr
  MR_ctxt_detstack_zone :: addr
  MR_ctxt_sp :: addr
  MR_ctxt_nondetstack_zone :: addr
  MR_ctxt_maxfr :: addr
  MR_ctxt_curfr :: addr
  MR_ctxt_genstack_zone :: addr
  MR_ctxt_gen_next :: int
  MR_ctxt_cutstack_zone :: addr
  MR_ctxt_cut_next :: int
  MR_ctxt_pnegstack_zone :: addr
  MR_ctxt_pneg_next :: int
  MR_ctxt_trail_zone :: addr
  MR_ctxt_trail_ptr :: addr
  MR_ctxt_ticket_counter :: nat
  MR_ctxt_ticket_high_water :: nat
  MR_ctxt_hp :: addr
  MR_ctxt_min_hp_rec :: addr

text \<open>
  The live state of one engine: the abstract machine registers and globals that
  \<open>MR_load_context\<close> and \<open>MR_save_context\<close> name, the context structure embedded
  in the engine (\<open>MR_ENGINE(MR_eng_context)\<close>, of which only the zone fields are
  used) and the pointer to the context the engine is running
  (\<open>MR_ENGINE(MR_eng_this_context)\<close>).
\<close>

record MR_Engine =
  MR_succip :: addr
  MR_sp :: addr
  MR_maxfr :: addr
  MR_curfr :: addr
  MR_gen_next :: int
  MR_cut_next :: int
  MR_pneg_next :: int
  MR_gen_stack :: addr
  MR_cut_stack :: addr
  MR_pneg_stack :: addr
  MR_trail_zone :: addr
  MR_trail_ptr :: addr
  MR_ticket_counter :: nat
  MR_ticket_high_water :: nat
  MR_hp :: addr
  MR_min_hp_rec :: addr
  MR_eng_context :: MR_Context
  MR_eng_this_context :: addr

text \<open>
  The ways the process aborts: a failed \<open>assert\<close> of a macro, the runtime error of
  \<open>MR_flounder\<close>, and the destruction of a context that is still linked into the
  run queue or the pending list.
\<close>

datatype MR_failure = MR_assertion_failed | MR_fatal_deadlock | MR_fatal_still_linked

section \<open>The heap reclamation point\<close>

text \<open>
  \<open>MR_set_min_heap_reclamation_point(ctxt)\<close> writes the engine's \<open>MR_min_hp_rec\<close> and,
  in its first branch, the context's field; with \<open>MR_CONSERVATIVE_GC\<close> it is empty.
\<close>

definition MR_set_min_heap_reclamation_point ::
  "MR_Config \<Rightarrow> MR_Context \<Rightarrow> MR_Engine \<Rightarrow> MR_Engine \<times> MR_Context" where
  "MR_set_min_heap_reclamation_point cfg ctxt e =
     (if MR_CONSERVATIVE_GC cfg then (e, ctxt)
      else if MR_hp e \<noteq> MR_ctxt_hp ctxt \<or> MR_ctxt_hp ctxt = MR_NULL
      then (e\<lparr>MR_min_hp_rec := MR_hp e\<rparr>, ctxt\<lparr>MR_ctxt_min_hp_rec := MR_hp e\<rparr>)
      else (e\<lparr>MR_min_hp_rec := MR_ctxt_min_hp_rec ctxt\<rparr>, ctxt))"

definition MR_save_hp_in_context :: "MR_Config \<Rightarrow> MR_Engine \<Rightarrow> MR_Context \<Rightarrow> MR_Context" where
  "MR_save_hp_in_context cfg e ctxt =
     (if MR_CONSERVATIVE_GC cfg then ctxt
      else ctxt\<lparr>MR_ctxt_hp := MR_hp e, MR_ctxt_min_hp_rec := MR_min_hp_rec e\<rparr>)"

section \<open>Loading and saving a context\<close>

text \<open>
  \<open>MR_load_context(cptr)\<close>, block by block. \<open>zone_min z\<close> is \<open>z->MR_zone_min\<close>: the
  declaration of \<open>MR_MemoryZone\<close> is in \<open>mercury_memory.h\<close>, so the memory of the
  zones is a parameter. The context read is \<open>*cptr\<close>; the function returns the
  engine and the context structure after the macro.
\<close>

definition MR_load_context_regs :: "MR_Config \<Rightarrow> MR_Context \<Rightarrow> MR_Engine \<Rightarrow> MR_Engine" where
  "MR_load_context_regs cfg c e =
     (if MR_HIGHLEVEL_CODE cfg then e
      else
        let e1 = e\<lparr>MR_succip := MR_ctxt_succip c, MR_sp := MR_ctxt_sp c,
                   MR_maxfr := MR_ctxt_maxfr c, MR_curfr := MR_ctxt_curfr c\<rparr>
        in if MR_USE_MINIMAL_MODEL_STACK_COPY cfg
           then e1\<lparr>MR_gen_next := MR_ctxt_gen_next c, MR_cut_next := MR_ctxt_cut_next c,
                   MR_pneg_next := MR_ctxt_pneg_next c\<rparr>
           else e1)"

definition MR_load_context_trail :: "MR_Config \<Rightarrow> MR_Context \<Rightarrow> MR_Engine \<Rightarrow> MR_Engine" where
  "MR_load_context_trail cfg c e =
     (if MR_USE_TRAIL cfg
      then e\<lparr>MR_trail_zone := MR_ctxt_trail_zone c, MR_trail_ptr := MR_ctxt_trail_ptr c,
             MR_ticket_counter := MR_ctxt_ticket_counter c,
             MR_ticket_high_water := MR_ctxt_ticket_high_water c\<rparr>
      else e)"

definition MR_load_context_zones ::
  "MR_Config \<Rightarrow> (addr \<Rightarrow> addr) \<Rightarrow> MR_Context \<Rightarrow> MR_Engine \<Rightarrow> MR_Engine" where
  "MR_load_context_zones cfg zone_min c e =
     (if MR_HIGHLEVEL_CODE cfg then e
      else
        let ec1 = (MR_eng_context e)\<lparr>MR_ctxt_detstack_zone := MR_ctxt_detstack_zone c,
                     MR_ctxt_nondetstack_zone := MR_ctxt_nondetstack_zone c\<rparr>
        in if MR_USE_MINIMAL_MODEL_STACK_COPY cfg
           then
             let ec2 = ec1\<lparr>MR_ctxt_genstack_zone := MR_ctxt_genstack_zone c,
                          MR_ctxt_cutstack_zone := MR_ctxt_cutstack_zone c,
                          MR_ctxt_pnegstack_zone := MR_ctxt_pnegstack_zone c\<rparr>
             in e\<lparr>MR_eng_context := ec2,
                   MR_gen_stack := zone_min (MR_ctxt_genstack_zone ec2),
                   MR_cut_stack := zone_min (MR_ctxt_cutstack_zone ec2),
                   MR_pneg_stack := zone_min (MR_ctxt_pnegstack_zone ec2)\<rparr>
           else e\<lparr>MR_eng_context := ec1\<rparr>)"

definition MR_load_context ::
  "MR_Config \<Rightarrow> (addr \<Rightarrow> addr) \<Rightarrow> MR_Context \<Rightarrow> MR_Engine \<Rightarrow> MR_Engine \<times> MR_Context" where
  "MR_load_context cfg zone_min c e =
     MR_set_min_heap_reclamation_point cfg c
       (MR_load_context_zones cfg zone_min c
         (MR_load_context_trail cfg c (MR_load_context_regs cfg c e)))"

text \<open>
  \<open>MR_save_context(cptr)\<close>. The three \<open>assert\<close>s of the minimal model variant compare
  the stack bases with the zones of the engine's embedded context.
\<close>

definition MR_save_context_regs :: "MR_Config \<Rightarrow> MR_Engine \<Rightarrow> MR_Context \<Rightarrow> MR_Context" where
  "MR_save_context_regs cfg e c =
     (if MR_HIGHLEVEL_CODE cfg then c
      else
        let c1 = c\<lparr>MR_ctxt_succip := MR_succip e, MR_ctxt_sp := MR_sp e,
                   MR_ctxt_maxfr := MR_maxfr e, MR_ctxt_curfr := MR_curfr e\<rparr>
        in if MR_USE_MINIMAL_MODEL_STACK_COPY cfg
           then c1\<lparr>MR_ctxt_gen_next := MR_gen_next e, MR_ctxt_cut_next := MR_cut_next e,
                   MR_ctxt_pneg_next := MR_pneg_next e\<rparr>
           else c1)"

definition MR_save_context_trail :: "MR_Config \<Rightarrow> MR_Engine \<Rightarrow> MR_Context \<Rightarrow> MR_Context" where
  "MR_save_context_trail cfg e c =
     (if MR_USE_TRAIL cfg
      then c\<lparr>MR_ctxt_trail_zone := MR_trail_zone e, MR_ctxt_trail_ptr := MR_trail_ptr e,
             MR_ctxt_ticket_counter := MR_ticket_counter e,
             MR_ctxt_ticket_high_water := MR_ticket_high_water e\<rparr>
      else c)"

definition MR_save_context_zones :: "MR_Config \<Rightarrow> MR_Engine \<Rightarrow> MR_Context \<Rightarrow> MR_Context" where
  "MR_save_context_zones cfg e c =
     (if MR_HIGHLEVEL_CODE cfg then c
      else
        let c1 = c\<lparr>MR_ctxt_detstack_zone := MR_ctxt_detstack_zone (MR_eng_context e),
                   MR_ctxt_nondetstack_zone := MR_ctxt_nondetstack_zone (MR_eng_context e)\<rparr>
        in if MR_USE_MINIMAL_MODEL_STACK_COPY cfg
           then c1\<lparr>MR_ctxt_genstack_zone := MR_ctxt_genstack_zone (MR_eng_context e),
                   MR_ctxt_cutstack_zone := MR_ctxt_cutstack_zone (MR_eng_context e),
                   MR_ctxt_pnegstack_zone := MR_ctxt_pnegstack_zone (MR_eng_context e)\<rparr>
           else c1)"

definition MR_save_context_asserts :: "MR_Config \<Rightarrow> (addr \<Rightarrow> addr) \<Rightarrow> MR_Engine \<Rightarrow> bool" where
  "MR_save_context_asserts cfg zone_min e =
     (if MR_HIGHLEVEL_CODE cfg then True
      else if MR_USE_MINIMAL_MODEL_STACK_COPY cfg
      then MR_gen_stack e = zone_min (MR_ctxt_genstack_zone (MR_eng_context e)) \<and>
           MR_cut_stack e = zone_min (MR_ctxt_cutstack_zone (MR_eng_context e)) \<and>
           MR_pneg_stack e = zone_min (MR_ctxt_pnegstack_zone (MR_eng_context e))
      else True)"

definition MR_save_context ::
  "MR_Config \<Rightarrow> (addr \<Rightarrow> addr) \<Rightarrow> MR_Engine \<Rightarrow> MR_Context \<Rightarrow> MR_failure + MR_Context" where
  "MR_save_context cfg zone_min e c =
     (let c3 = MR_save_context_zones cfg e
                 (MR_save_context_trail cfg e (MR_save_context_regs cfg e c))
      in if MR_save_context_asserts cfg zone_min e
         then Inr (MR_save_hp_in_context cfg e c3)
         else Inl MR_assertion_failed)"

section \<open>The scheduler's state and the functions the macros call\<close>

text \<open>
  What the join macros act on besides the engine: the memory that holds the
  context structures, the run queue (the linked list from \<open>MR_runqueue_head\<close> to
  \<open>MR_runqueue_tail\<close>, head first), the free list of contexts and the list
  \<open>MR_pending_contexts\<close>. The fields of \<open>MR_PendingContext\<close> carry the prefix
  \<open>MR_pc_\<close>: \<open>context\<close> and \<open>next\<close> are keywords of Isabelle. The list stands for
  the chain through \<open>next\<close>.
\<close>

datatype MR_WaitingMode = MR_PENDING_READ | MR_PENDING_WRITE | MR_PENDING_EXEC

record MR_PendingContext =
  MR_pc_context :: addr
  MR_pc_fd :: int
  MR_pc_waiting_mode :: MR_WaitingMode

record MR_Runtime =
  MR_contexts :: "addr \<Rightarrow> MR_Context"
  MR_runqueue :: "addr list"
  MR_free_contexts :: "addr list"
  MR_pending_contexts :: "MR_PendingContext list"

text \<open>
  Modelled from the spec: the body of \<open>MR_schedule\<close> is not in the header, which
  only declares it (``Append the given context onto the end of the run queue'');
  section 4.3 of the specification says the same.
\<close>

definition MR_schedule :: "addr \<Rightarrow> MR_Runtime \<Rightarrow> MR_Runtime" where
  "MR_schedule ctxt rt = rt\<lparr>MR_runqueue := MR_runqueue rt @ [ctxt]\<rparr>"

text \<open>
  A context is linked when it is in the run queue or in an entry of the pending
  list.
\<close>

definition MR_context_linked :: "addr \<Rightarrow> MR_Runtime \<Rightarrow> bool" where
  "MR_context_linked ctxt rt =
     (ctxt \<in> set (MR_runqueue rt) \<or> ctxt \<in> set (map MR_pc_context (MR_pending_contexts rt)))"

text \<open>
  Modelled from the spec: the body of \<open>MR_destroy_context\<close> is not in the header,
  which only declares it (it ``returns the pointed-to context structure to the
  free list''). Section 4.1 of the specification: \<open>destroy(context)\<close> returns the
  context to the free list, and destroying a context that is still linked into
  the run queue or the pending-I/O set is a programming error, fatal and not
  recoverable (section 7: a fatal abort). The release of the zones is not
  modelled.
\<close>

definition MR_destroy_context :: "addr \<Rightarrow> MR_Runtime \<Rightarrow> MR_failure + MR_Runtime" where
  "MR_destroy_context ctxt rt =
     (if MR_context_linked ctxt rt then Inl MR_fatal_still_linked
      else Inr (rt\<lparr>MR_free_contexts := ctxt # MR_free_contexts rt\<rparr>))"

text \<open>
  Where a macro hands control: \<open>MR_GOTO(label)\<close>, or \<open>MR_runnext()\<close>, which is
  \<open>MR_GOTO(MR_ENTRY(MR_do_runnext))\<close>.
\<close>

datatype MR_control = MR_GOTO addr | MR_runnext

section \<open>Forking\<close>

text \<open>
  C6. \<open>MR_fork_new_context(child, parent, numslots)\<close> has no embedding. Its comment
  says that it creates a context, copies the topmost \<open>numslots\<close> slots of the
  current stack frame to it, puts it on the run queue and resumes the current
  context at \<open>parent\<close>. Its body writes through \<open>f_n_c_context->context_sp\<close> and,
  with \<open>MR_THREAD_SAFE\<close>, assigns \<open>f_n_c_context->owner_thread\<close>: the structure above
  has neither field (the saved stack pointer, which the next line of the loop
  increments, is \<open>MR_ctxt_sp\<close>, and the owner is \<open>MR_ctxt_owner_thread\<close>). It calls
  \<open>MR_create_context()\<close> without arguments, and the header declares
  \<open>MR_create_context(const char *id, MR_Generator *gen)\<close>. An expansion of the
  macro is not a C program, so there is no behaviour to translate.
\<close>

section \<open>Sync terms\<close>

text \<open>
  \<open>struct MR_Sync_Term_Struct\<close>. The lock is not a field of the model: each macro
  runs between \<open>MR_LOCK\<close> and \<open>MR_UNLOCK\<close> of the term's lock, and is one step here.
  The join macros end in \<open>MR_GOTO\<close> or \<open>MR_runnext\<close>, which exist without
  \<open>MR_HIGHLEVEL_CODE\<close> only; the configuration matters to them through
  \<open>MR_save_context\<close> alone.
\<close>

record MR_SyncTerm =
  MR_st_count :: int
  MR_st_parent :: addr

definition MR_init_sync_term :: "int \<Rightarrow> MR_SyncTerm" where
  "MR_init_sync_term nbranches = \<lparr>MR_st_count = nbranches, MR_st_parent = MR_NULL\<rparr>"

text \<open>
  \<open>MR_join_and_terminate(sync_term)\<close>, run by the engine \<open>e\<close>. The result is the
  control transfer that ends the macro, the sync term and the scheduler's state,
  or the failure of an \<open>assert\<close>.
\<close>

definition MR_join_and_terminate ::
  "MR_SyncTerm \<Rightarrow> MR_Engine \<Rightarrow> MR_Runtime \<Rightarrow> MR_failure + (MR_control \<times> MR_SyncTerm \<times> MR_Runtime)" where
  "MR_join_and_terminate st0 e rt =
     (let st = st0\<lparr>MR_st_count := MR_st_count st0 - 1\<rparr>
      in if MR_st_count st = 0
         then (if MR_st_parent st \<noteq> MR_NULL
               then (case MR_destroy_context (MR_eng_this_context e)
                            (MR_schedule (MR_st_parent st) rt) of
                       Inl f \<Rightarrow> Inl f
                     | Inr rt' \<Rightarrow> Inr (MR_runnext, st, rt'))
               else Inl MR_assertion_failed)
         else (if 0 < MR_st_count st
               then (case MR_destroy_context (MR_eng_this_context e) rt of
                       Inl f \<Rightarrow> Inl f
                     | Inr rt' \<Rightarrow> Inr (MR_runnext, st, rt'))
               else Inl MR_assertion_failed))"

text \<open>\<open>MR_join_and_continue(sync_term, where_to)\<close>, run by the engine \<open>e\<close>.\<close>

definition MR_join_and_continue ::
  "MR_Config \<Rightarrow> (addr \<Rightarrow> addr) \<Rightarrow> MR_SyncTerm \<Rightarrow> addr \<Rightarrow> MR_Engine \<Rightarrow> MR_Runtime \<Rightarrow>
   MR_failure + (MR_control \<times> MR_SyncTerm \<times> MR_Runtime)" where
  "MR_join_and_continue cfg zone_min st0 where_to e rt =
     (let st = st0\<lparr>MR_st_count := MR_st_count st0 - 1\<rparr>;
          this = MR_eng_this_context e
      in if MR_st_count st = 0 then Inr (MR_GOTO where_to, st, rt)
         else if \<not> 0 < MR_st_count st then Inl MR_assertion_failed
         else (case MR_save_context cfg zone_min e (MR_contexts rt this) of
                 Inl f \<Rightarrow> Inl f
               | Inr c \<Rightarrow>
                   Inr (MR_runnext, st\<lparr>MR_st_parent := this\<rparr>,
                        rt\<lparr>MR_contexts := (MR_contexts rt)(this := c\<lparr>MR_ctxt_resume := where_to\<rparr>)\<rparr>)))"

text \<open>
  A sequence of joins on one sync term. Each call is made by some engine, in
  whatever state the scheduler is in at that moment: only the sync term is
  threaded from one call to the next.
\<close>

datatype MR_join_call =
  MR_terminate_call MR_Engine MR_Runtime
| MR_continue_call addr MR_Engine MR_Runtime

fun MR_join_call_before :: "MR_join_call \<Rightarrow> MR_Runtime" where
  "MR_join_call_before (MR_terminate_call e rt) = rt"
| "MR_join_call_before (MR_continue_call where_to e rt) = rt"

fun MR_join_caller :: "MR_join_call \<Rightarrow> addr" where
  "MR_join_caller (MR_terminate_call e rt) = MR_eng_this_context e"
| "MR_join_caller (MR_continue_call where_to e rt) = MR_eng_this_context e"

fun MR_join ::
  "MR_Config \<Rightarrow> (addr \<Rightarrow> addr) \<Rightarrow> MR_SyncTerm \<Rightarrow> MR_join_call \<Rightarrow>
   MR_failure + (MR_control \<times> MR_SyncTerm \<times> MR_Runtime)" where
  "MR_join cfg zone_min st (MR_terminate_call e rt) = MR_join_and_terminate st e rt"
| "MR_join cfg zone_min st (MR_continue_call where_to e rt) =
     MR_join_and_continue cfg zone_min st where_to e rt"

text \<open>
  The contexts a call resumed: the calling context \<open>this\<close> when the macro ends in
  the \<open>MR_GOTO\<close> of its label (it continues there), and the contexts the call
  appended to the run queue (they are rescheduled).
\<close>

definition MR_resumptions :: "addr \<Rightarrow> MR_Runtime \<Rightarrow> MR_control \<Rightarrow> MR_Runtime \<Rightarrow> addr list" where
  "MR_resumptions this rt ctl rt' =
     (case ctl of MR_GOTO l \<Rightarrow> [this] | MR_runnext \<Rightarrow> []) @
     drop (length (MR_runqueue rt)) (MR_runqueue rt')"

fun MR_joins ::
  "MR_Config \<Rightarrow> (addr \<Rightarrow> addr) \<Rightarrow> MR_SyncTerm \<Rightarrow> MR_join_call list \<Rightarrow>
   MR_failure + (addr list list \<times> MR_SyncTerm)" where
  "MR_joins cfg zone_min st [] = Inr ([], st)"
| "MR_joins cfg zone_min st (c # cs) =
     (case MR_join cfg zone_min st c of
        Inl f \<Rightarrow> Inl f
      | Inr (ctl, st1, rt1) \<Rightarrow>
          (case MR_joins cfg zone_min st1 cs of
             Inl f \<Rightarrow> Inl f
           | Inr (rs, st2) \<Rightarrow>
               Inr (MR_resumptions (MR_join_caller c) (MR_join_call_before c) ctl rt1 # rs, st2)))"

text \<open>
  The calls of a fork whose continuing branch is the context \<open>p\<close>: a
  \<open>MR_join_and_continue\<close> is made by \<open>p\<close>, on an engine that passes the \<open>assert\<close>s of
  \<open>MR_save_context\<close>; a \<open>MR_join_and_terminate\<close> is made by another context, which
  is running and so is not linked into the run queue or the pending list.
\<close>

fun MR_join_call_ok :: "MR_Config \<Rightarrow> (addr \<Rightarrow> addr) \<Rightarrow> addr \<Rightarrow> MR_join_call \<Rightarrow> bool" where
  "MR_join_call_ok cfg zone_min p (MR_terminate_call e rt) =
     (MR_eng_this_context e \<noteq> p \<and> \<not> MR_context_linked (MR_eng_this_context e) rt)"
| "MR_join_call_ok cfg zone_min p (MR_continue_call where_to e rt) =
     (MR_eng_this_context e = p \<and> p \<noteq> MR_NULL \<and> MR_save_context_asserts cfg zone_min e)"

fun MR_is_continue_call :: "MR_join_call \<Rightarrow> bool" where
  "MR_is_continue_call (MR_terminate_call e rt) = False"
| "MR_is_continue_call (MR_continue_call where_to e rt) = True"

section \<open>Running the next context\<close>

text \<open>
  Modelled from the spec: \<open>MR_flounder\<close> is only declared in the header and the code
  at the entry \<open>MR_do_runnext\<close> is not in the sources. Section 4.3 of the
  specification: \<open>flounder()\<close> reports a fatal runtime error identifying deadlock
  and terminates the process.
\<close>

definition MR_flounder :: "MR_failure + 'a" where
  "MR_flounder = Inl MR_fatal_deadlock"

text \<open>
  Modelled from the spec: \<open>run_next()\<close> of section 4.3, invoked by an idle engine.
  It removes and returns the head of the run queue if there is one. With an empty
  run queue and pending I/O it performs a blocking readiness wait, moves the
  context of every entry that became ready to the tail of the run queue, and
  retries; with nothing pending it flounders if no other engine is executing a
  context, and parks otherwise. \<open>busy\<close> is the number of other engines executing a
  context. Each element of \<open>waits\<close> is the outcome of one readiness wait (the
  entries that became ready); when they run out the engine is still blocked in
  the wait.
\<close>

datatype MR_dispatch =
  MR_run addr MR_Runtime
| MR_blocked_on_io MR_Runtime
| MR_parked MR_Runtime

fun MR_do_runnext ::
  "nat \<Rightarrow> (MR_PendingContext \<Rightarrow> bool) list \<Rightarrow> MR_Runtime \<Rightarrow> MR_failure + MR_dispatch" where
  "MR_do_runnext busy waits rt =
     (case MR_runqueue rt of
        c # cs \<Rightarrow> Inr (MR_run c (rt\<lparr>MR_runqueue := cs\<rparr>))
      | [] \<Rightarrow>
          if MR_pending_contexts rt \<noteq> []
          then (case waits of
                  [] \<Rightarrow> Inr (MR_blocked_on_io rt)
                | ready # waits' \<Rightarrow>
                    MR_do_runnext busy waits'
                      (rt\<lparr>MR_runqueue :=
                            MR_runqueue rt @ map MR_pc_context (filter ready (MR_pending_contexts rt)),
                          MR_pending_contexts :=
                            filter (\<lambda>p. \<not> ready p) (MR_pending_contexts rt)\<rparr>))
          else if busy = 0 then MR_flounder
          else Inr (MR_parked rt))"

section \<open>Saving and then loading\<close>

text \<open>
  The round trip of the specification's section 8: \<open>MR_save_context\<close> into a
  context structure, then \<open>MR_load_context\<close> from it on the same engine state.
\<close>

definition MR_save_then_load ::
  "MR_Config \<Rightarrow> (addr \<Rightarrow> addr) \<Rightarrow> MR_Engine \<Rightarrow> MR_Context \<Rightarrow> MR_failure + (MR_Engine \<times> MR_Context)" where
  "MR_save_then_load cfg zone_min e c =
     (case MR_save_context cfg zone_min e c of
        Inl f \<Rightarrow> Inl f
      | Inr c' \<Rightarrow> Inr (MR_load_context cfg zone_min c' e))"

section \<open>Concrete states\<close>

text \<open>
  A low-level, thread-safe configuration with trailing, minimal model stack
  copying and heap reclamation by truncation; zones whose base is 100 above
  their address; a context structure; and an engine whose generator, cut and
  possibly-negated-context stacks sit at the bases of its zones.
\<close>

definition example_config :: MR_Config where
  "example_config = \<lparr>MR_THREAD_SAFE = True, MR_HIGHLEVEL_CODE = False,
     MR_USE_MINIMAL_MODEL_STACK_COPY = True, MR_USE_TRAIL = True, MR_CONSERVATIVE_GC = False\<rparr>"

definition example_zone_min :: "addr \<Rightarrow> addr" where
  "example_zone_min z = z + 100"

definition example_context :: MR_Context where
  "example_context = \<lparr>MR_ctxt_id = ''a'', MR_ctxt_next = 0, MR_ctxt_resume = 11,
     MR_ctxt_owner_thread = 0, MR_ctxt_succip = 12, MR_ctxt_detstack_zone = 1, MR_ctxt_sp = 1000,
     MR_ctxt_nondetstack_zone = 2, MR_ctxt_maxfr = 2000, MR_ctxt_curfr = 2000,
     MR_ctxt_genstack_zone = 3, MR_ctxt_gen_next = 0, MR_ctxt_cutstack_zone = 4,
     MR_ctxt_cut_next = 0, MR_ctxt_pnegstack_zone = 5, MR_ctxt_pneg_next = 0,
     MR_ctxt_trail_zone = 6, MR_ctxt_trail_ptr = 3000, MR_ctxt_ticket_counter = 1,
     MR_ctxt_ticket_high_water = 1, MR_ctxt_hp = 5000, MR_ctxt_min_hp_rec = 4000\<rparr>"

definition example_engine :: MR_Engine where
  "example_engine = \<lparr>MR_succip = 21, MR_sp = 1500, MR_maxfr = 2500, MR_curfr = 2400,
     MR_gen_next = 1, MR_cut_next = 2, MR_pneg_next = 3, MR_gen_stack = 103, MR_cut_stack = 104,
     MR_pneg_stack = 105, MR_trail_zone = 6, MR_trail_ptr = 3500, MR_ticket_counter = 7,
     MR_ticket_high_water = 9, MR_hp = 5000, MR_min_hp_rec = 4500,
     MR_eng_context = example_context, MR_eng_this_context = 7\<rparr>"

definition example_runtime :: MR_Runtime where
  "example_runtime = \<lparr>MR_contexts = (\<lambda>p. example_context),
     MR_runqueue = [8], MR_free_contexts = [], MR_pending_contexts = []\<rparr>"

text \<open>
  The same engine after other contexts have run on it: every register differs,
  and the heap pointer is where \<open>example_engine\<close> left it.
\<close>

definition example_engine_later :: MR_Engine where
  "example_engine_later = \<lparr>MR_succip = 31, MR_sp = 1700, MR_maxfr = 2700, MR_curfr = 2600,
     MR_gen_next = 4, MR_cut_next = 5, MR_pneg_next = 6, MR_gen_stack = 113, MR_cut_stack = 114,
     MR_pneg_stack = 115, MR_trail_zone = 16, MR_trail_ptr = 3700, MR_ticket_counter = 17,
     MR_ticket_high_water = 19, MR_hp = 5000, MR_min_hp_rec = 4900,
     MR_eng_context = example_context\<lparr>MR_ctxt_detstack_zone := 21\<rparr>, MR_eng_this_context = 8\<rparr>"

section \<open>Properties of loading and saving\<close>

lemmas MR_load_defs = MR_load_context_def MR_load_context_regs_def MR_load_context_trail_def
  MR_load_context_zones_def MR_set_min_heap_reclamation_point_def

lemmas MR_save_defs = MR_save_context_def MR_save_context_regs_def MR_save_context_trail_def
  MR_save_context_zones_def MR_save_hp_in_context_def

lemma MR_load_context_keeps_hp: "MR_hp (fst (MR_load_context cfg zone_min c e)) = MR_hp e"
  by (simp add: MR_load_defs Let_def)

text \<open>
  \<open>MR_save_context\<close> runs to its end exactly when its \<open>assert\<close>s hold, and they hold
  on every engine that has loaded a context.
\<close>

lemma MR_save_context_completes:
  "MR_save_context_asserts cfg zone_min e \<Longrightarrow> \<exists>c'. MR_save_context cfg zone_min e c = Inr c'"
  by (simp add: MR_save_context_def Let_def)

lemma MR_save_context_aborts:
  "(MR_save_context cfg zone_min e c = Inl f) =
     (f = MR_assertion_failed \<and> \<not> MR_save_context_asserts cfg zone_min e)"
  by (auto simp add: MR_save_context_def Let_def)

lemma MR_save_context_asserts_trivial:
  "MR_HIGHLEVEL_CODE cfg \<or> \<not> MR_USE_MINIMAL_MODEL_STACK_COPY cfg \<Longrightarrow>
     MR_save_context_asserts cfg zone_min e"
  by (auto simp add: MR_save_context_asserts_def)

lemma MR_load_context_establishes_asserts:
  "MR_save_context_asserts cfg zone_min (fst (MR_load_context cfg zone_min c e))"
  by (simp add: MR_load_defs MR_save_context_asserts_def Let_def)

text \<open>
  C1. Without conservative garbage collection, \<open>MR_load_context\<close> leaves the
  engine's heap pointer alone, and: if that heap pointer differs from the heap
  pointer recorded in the context, or the recorded one is \<open>NULL\<close>, both the
  engine's \<open>MR_min_hp_rec\<close> and the context's recorded one become the engine's heap
  pointer; otherwise the engine's \<open>MR_min_hp_rec\<close> becomes the value recorded in
  the context, and the context structure is unchanged. This holds for every
  context and every engine state.
\<close>

theorem MR_load_context_reclamation_point:
  assumes "\<not> MR_CONSERVATIVE_GC cfg"
  shows "MR_hp (fst (MR_load_context cfg zone_min c e)) = MR_hp e \<and>
         (if MR_hp e \<noteq> MR_ctxt_hp c \<or> MR_ctxt_hp c = MR_NULL
          then MR_min_hp_rec (fst (MR_load_context cfg zone_min c e)) = MR_hp e \<and>
               MR_ctxt_min_hp_rec (snd (MR_load_context cfg zone_min c e)) = MR_hp e
          else MR_min_hp_rec (fst (MR_load_context cfg zone_min c e)) = MR_ctxt_min_hp_rec c \<and>
               snd (MR_load_context cfg zone_min c e) = c)"
  using assms by (simp add: MR_load_defs Let_def)

theorem MR_load_context_reclamation_point_witness:
  "\<not> MR_CONSERVATIVE_GC example_config \<and>
   MR_min_hp_rec (fst (MR_load_context example_config example_zone_min
       example_context example_engine)) = 4000 \<and>
   MR_min_hp_rec (fst (MR_load_context example_config example_zone_min
       (example_context\<lparr>MR_ctxt_hp := MR_NULL\<rparr>) example_engine)) = 5000 \<and>
   MR_ctxt_min_hp_rec (snd (MR_load_context example_config example_zone_min
       (example_context\<lparr>MR_ctxt_hp := MR_NULL\<rparr>) example_engine)) = 5000"
proof -
  have h: "\<not> MR_CONSERVATIVE_GC example_config"
    by (simp add: example_config_def)
  show ?thesis
    using h
      MR_load_context_reclamation_point [OF h, where e = example_engine
        and c = example_context and zone_min = example_zone_min]
      MR_load_context_reclamation_point [OF h, where e = example_engine
        and c = "example_context\<lparr>MR_ctxt_hp := MR_NULL\<rparr>" and zone_min = example_zone_min]
    by (simp add: example_engine_def example_context_def)
qed

text \<open>
  C7. Without conservative garbage collection, \<open>MR_save_context\<close> on an engine that
  passes its \<open>assert\<close>s (every engine when the minimal model stacks are compiled
  out, see \<open>MR_save_context_asserts_trivial\<close>) yields, for every context
  structure, one whose recorded heap pointer is the engine's \<open>MR_hp\<close> and whose
  recorded reclamation point is the engine's \<open>MR_min_hp_rec\<close>.
\<close>

theorem MR_save_context_records_heap:
  assumes "\<not> MR_CONSERVATIVE_GC cfg" and "MR_save_context_asserts cfg zone_min e"
  shows "\<exists>c'. MR_save_context cfg zone_min e c = Inr c' \<and>
           MR_ctxt_hp c' = MR_hp e \<and> MR_ctxt_min_hp_rec c' = MR_min_hp_rec e"
  using assms by (simp add: MR_save_defs Let_def)

theorem MR_save_context_records_heap_witness:
  "\<not> MR_CONSERVATIVE_GC example_config \<and>
   MR_save_context_asserts example_config example_zone_min example_engine \<and>
   (\<exists>c'. MR_save_context example_config example_zone_min example_engine example_context = Inr c' \<and>
      MR_ctxt_hp c' = 5000 \<and> MR_ctxt_min_hp_rec c' = 4500)"
proof -
  have h1: "\<not> MR_CONSERVATIVE_GC example_config"
    by (simp add: example_config_def)
  have h2: "MR_save_context_asserts example_config example_zone_min example_engine"
    by (simp add: MR_save_context_asserts_def example_config_def example_engine_def
        example_context_def example_zone_min_def)
  have "MR_hp example_engine = 5000" "MR_min_hp_rec example_engine = 4500"
    by (simp_all add: example_engine_def)
  with h1 h2 MR_save_context_records_heap [OF h1 h2, where c = example_context] show ?thesis
    by simp
qed

subsection \<open>Conservative garbage collection\<close>

lemma MR_checkpoints_empty:
  "MR_CONSERVATIVE_GC cfg \<Longrightarrow>
     MR_set_min_heap_reclamation_point cfg c e = (e, c) \<and> MR_save_hp_in_context cfg e c = c"
  by (simp add: MR_set_min_heap_reclamation_point_def MR_save_hp_in_context_def)

lemma MR_load_context_writes_no_heap_state:
  "MR_CONSERVATIVE_GC cfg \<Longrightarrow>
     MR_hp (fst (MR_load_context cfg zone_min c e)) = MR_hp e \<and>
     MR_min_hp_rec (fst (MR_load_context cfg zone_min c e)) = MR_min_hp_rec e \<and>
     snd (MR_load_context cfg zone_min c e) = c"
  by (simp add: MR_load_defs Let_def)

lemma MR_save_context_writes_no_heap_state:
  "MR_CONSERVATIVE_GC cfg \<Longrightarrow> MR_save_context cfg zone_min e c = Inr c' \<Longrightarrow>
     MR_ctxt_hp c' = MR_ctxt_hp c \<and> MR_ctxt_min_hp_rec c' = MR_ctxt_min_hp_rec c"
  by (auto simp add: MR_save_defs Let_def split: if_splits)

lemma MR_load_context_reads_no_heap_state:
  "MR_CONSERVATIVE_GC cfg \<Longrightarrow>
     MR_load_context cfg zone_min (c\<lparr>MR_ctxt_hp := a, MR_ctxt_min_hp_rec := b\<rparr>)
         (e\<lparr>MR_hp := x, MR_min_hp_rec := y\<rparr>) =
       ((fst (MR_load_context cfg zone_min c e))\<lparr>MR_hp := x, MR_min_hp_rec := y\<rparr>,
        (snd (MR_load_context cfg zone_min c e))\<lparr>MR_ctxt_hp := a, MR_ctxt_min_hp_rec := b\<rparr>)"
  by (simp add: MR_load_defs Let_def)

lemma MR_save_context_reads_no_heap_state:
  "MR_CONSERVATIVE_GC cfg \<Longrightarrow>
     MR_save_context cfg zone_min (e\<lparr>MR_hp := x, MR_min_hp_rec := y\<rparr>)
         (c\<lparr>MR_ctxt_hp := a, MR_ctxt_min_hp_rec := b\<rparr>) =
       map_sum id (\<lambda>c'. c'\<lparr>MR_ctxt_hp := a, MR_ctxt_min_hp_rec := b\<rparr>)
         (MR_save_context cfg zone_min e c)"
  by (simp add: MR_save_defs MR_save_context_asserts_def Let_def)

lemma MR_load_context_regs_any_gc:
  "MR_load_context_regs (cfg\<lparr>MR_CONSERVATIVE_GC := g\<rparr>) c e = MR_load_context_regs cfg c e"
  by (simp add: MR_load_context_regs_def)

lemma MR_load_context_trail_any_gc:
  "MR_load_context_trail (cfg\<lparr>MR_CONSERVATIVE_GC := g\<rparr>) c e = MR_load_context_trail cfg c e"
  by (simp add: MR_load_context_trail_def)

lemma MR_load_context_zones_any_gc:
  "MR_load_context_zones (cfg\<lparr>MR_CONSERVATIVE_GC := g\<rparr>) zone_min c e =
   MR_load_context_zones cfg zone_min c e"
  by (simp add: MR_load_context_zones_def)

lemma MR_set_point_other_fields:
  "(fst (MR_set_min_heap_reclamation_point cfg c e))\<lparr>MR_min_hp_rec := y\<rparr> =
     e\<lparr>MR_min_hp_rec := y\<rparr> \<and>
   (snd (MR_set_min_heap_reclamation_point cfg c e))\<lparr>MR_ctxt_min_hp_rec := b\<rparr> =
     c\<lparr>MR_ctxt_min_hp_rec := b\<rparr>"
  by (simp add: MR_set_min_heap_reclamation_point_def)

lemma MR_load_context_any_gc:
  "(fst (MR_load_context (cfg\<lparr>MR_CONSERVATIVE_GC := g\<rparr>) zone_min c e))\<lparr>MR_min_hp_rec := y\<rparr> =
   (fst (MR_load_context cfg zone_min c e))\<lparr>MR_min_hp_rec := y\<rparr> \<and>
   (snd (MR_load_context (cfg\<lparr>MR_CONSERVATIVE_GC := g\<rparr>) zone_min c e))\<lparr>MR_ctxt_min_hp_rec := b\<rparr> =
   (snd (MR_load_context cfg zone_min c e))\<lparr>MR_ctxt_min_hp_rec := b\<rparr>"
  by (simp add: MR_load_context_def MR_set_point_other_fields MR_load_context_regs_any_gc
      MR_load_context_trail_any_gc MR_load_context_zones_any_gc)

lemma MR_save_context_any_gc:
  "map_sum id (\<lambda>c'. c'\<lparr>MR_ctxt_hp := a, MR_ctxt_min_hp_rec := b\<rparr>)
     (MR_save_context (cfg\<lparr>MR_CONSERVATIVE_GC := g\<rparr>) zone_min e c) =
   map_sum id (\<lambda>c'. c'\<lparr>MR_ctxt_hp := a, MR_ctxt_min_hp_rec := b\<rparr>)
     (MR_save_context cfg zone_min e c)"
  by (simp add: MR_save_defs MR_save_context_asserts_def Let_def)

text \<open>
  C8. With conservative garbage collection the two checkpoint macros do nothing,
  and \<open>MR_load_context\<close> and \<open>MR_save_context\<close> neither write nor read the heap
  pointer and the reclamation point: they leave \<open>MR_hp\<close>, \<open>MR_min_hp_rec\<close> and the
  two fields of the context as they are, and whatever values these four hold
  come out unchanged next to the same other fields. Every other field of the
  engine and of the context is the same as with any other setting of
  \<open>MR_CONSERVATIVE_GC\<close>, and so is the failure of an \<open>assert\<close>.
\<close>

theorem MR_conservative_gc_skips_checkpoint:
  assumes "MR_CONSERVATIVE_GC cfg"
  shows "MR_set_min_heap_reclamation_point cfg c e = (e, c) \<and>
         MR_save_hp_in_context cfg e c = c \<and>
         MR_hp (fst (MR_load_context cfg zone_min c e)) = MR_hp e \<and>
         MR_min_hp_rec (fst (MR_load_context cfg zone_min c e)) = MR_min_hp_rec e \<and>
         snd (MR_load_context cfg zone_min c e) = c \<and>
         (\<forall>c'. MR_save_context cfg zone_min e c = Inr c' \<longrightarrow>
            MR_ctxt_hp c' = MR_ctxt_hp c \<and> MR_ctxt_min_hp_rec c' = MR_ctxt_min_hp_rec c) \<and>
         MR_load_context cfg zone_min (c\<lparr>MR_ctxt_hp := a, MR_ctxt_min_hp_rec := b\<rparr>)
             (e\<lparr>MR_hp := x, MR_min_hp_rec := y\<rparr>) =
           ((fst (MR_load_context cfg zone_min c e))\<lparr>MR_hp := x, MR_min_hp_rec := y\<rparr>,
            (snd (MR_load_context cfg zone_min c e))\<lparr>MR_ctxt_hp := a, MR_ctxt_min_hp_rec := b\<rparr>) \<and>
         MR_save_context cfg zone_min (e\<lparr>MR_hp := x, MR_min_hp_rec := y\<rparr>)
             (c\<lparr>MR_ctxt_hp := a, MR_ctxt_min_hp_rec := b\<rparr>) =
           map_sum id (\<lambda>c'. c'\<lparr>MR_ctxt_hp := a, MR_ctxt_min_hp_rec := b\<rparr>)
             (MR_save_context cfg zone_min e c) \<and>
         (fst (MR_load_context (cfg\<lparr>MR_CONSERVATIVE_GC := g\<rparr>) zone_min c e))\<lparr>MR_min_hp_rec := y\<rparr> =
           (fst (MR_load_context cfg zone_min c e))\<lparr>MR_min_hp_rec := y\<rparr> \<and>
         (snd (MR_load_context (cfg\<lparr>MR_CONSERVATIVE_GC := g\<rparr>) zone_min c e))
             \<lparr>MR_ctxt_min_hp_rec := b\<rparr> =
           (snd (MR_load_context cfg zone_min c e))\<lparr>MR_ctxt_min_hp_rec := b\<rparr> \<and>
         map_sum id (\<lambda>c'. c'\<lparr>MR_ctxt_hp := a, MR_ctxt_min_hp_rec := b\<rparr>)
             (MR_save_context (cfg\<lparr>MR_CONSERVATIVE_GC := g\<rparr>) zone_min e c) =
           map_sum id (\<lambda>c'. c'\<lparr>MR_ctxt_hp := a, MR_ctxt_min_hp_rec := b\<rparr>)
             (MR_save_context cfg zone_min e c)"
  using assms
  by (simp add: MR_checkpoints_empty MR_load_context_writes_no_heap_state
      MR_save_context_writes_no_heap_state MR_load_context_reads_no_heap_state
      MR_save_context_reads_no_heap_state MR_load_context_any_gc MR_save_context_any_gc)

theorem MR_conservative_gc_skips_checkpoint_witness:
  "MR_CONSERVATIVE_GC (example_config\<lparr>MR_CONSERVATIVE_GC := True\<rparr>) \<and>
   MR_set_min_heap_reclamation_point (example_config\<lparr>MR_CONSERVATIVE_GC := True\<rparr>)
     example_context example_engine = (example_engine, example_context) \<and>
   MR_save_hp_in_context (example_config\<lparr>MR_CONSERVATIVE_GC := True\<rparr>)
     example_engine example_context = example_context \<and>
   MR_min_hp_rec (fst (MR_load_context (example_config\<lparr>MR_CONSERVATIVE_GC := True\<rparr>)
     example_zone_min example_context example_engine)) = 4500 \<and>
   snd (MR_load_context (example_config\<lparr>MR_CONSERVATIVE_GC := True\<rparr>)
     example_zone_min example_context example_engine) = example_context"
proof -
  have h: "MR_CONSERVATIVE_GC (example_config\<lparr>MR_CONSERVATIVE_GC := True\<rparr>)"
    by simp
  have "MR_min_hp_rec example_engine = 4500"
    by (simp add: example_engine_def)
  with h MR_conservative_gc_skips_checkpoint [OF h, where c = example_context
      and e = example_engine and zone_min = example_zone_min]
  show ?thesis
    by simp
qed

subsection \<open>The round trip\<close>

text \<open>
  C3, amended. Let \<open>S\<close> be the state of a running context, held in the registers
  of its engine, with a heap pointer that is not \<open>NULL\<close>, on an engine that passes
  the \<open>assert\<close>s of \<open>MR_save_context\<close>. \<open>MR_save_context\<close> into a context structure
  succeeds, and \<open>MR_load_context\<close> from that structure reproduces \<open>S\<close>: loaded on
  the unchanged engine it gives back the very same engine state, and loaded on
  the engine in any later state \<open>e2\<close> it restores every register, cursor and
  counter that the configuration records, namely \<open>MR_succip\<close>, \<open>MR_sp\<close>, \<open>MR_maxfr\<close>,
  \<open>MR_curfr\<close> and the stack zones in low-level code (with the generator, cut and
  possibly-negated-context cursors and stack bases of the minimal model
  variant), the trail zone, the trail pointer, the ticket counter and the ticket
  high water mark with trailing, and the heap reclamation point without
  conservative garbage collection when the heap pointer is unchanged.
\<close>

theorem MR_save_then_load_reproduces:
  assumes "MR_save_context_asserts cfg zone_min e" and "MR_hp e \<noteq> MR_NULL"
  shows "\<exists>c'. MR_save_context cfg zone_min e c = Inr c' \<and>
           map_sum id fst (MR_save_then_load cfg zone_min e c) = Inr e \<and>
           (\<forall>e2.
              (\<not> MR_HIGHLEVEL_CODE cfg \<longrightarrow>
                 MR_succip (fst (MR_load_context cfg zone_min c' e2)) = MR_succip e \<and>
                 MR_sp (fst (MR_load_context cfg zone_min c' e2)) = MR_sp e \<and>
                 MR_maxfr (fst (MR_load_context cfg zone_min c' e2)) = MR_maxfr e \<and>
                 MR_curfr (fst (MR_load_context cfg zone_min c' e2)) = MR_curfr e \<and>
                 MR_ctxt_detstack_zone (MR_eng_context (fst (MR_load_context cfg zone_min c' e2))) =
                   MR_ctxt_detstack_zone (MR_eng_context e) \<and>
                 MR_ctxt_nondetstack_zone (MR_eng_context (fst (MR_load_context cfg zone_min c' e2))) =
                   MR_ctxt_nondetstack_zone (MR_eng_context e)) \<and>
              (\<not> MR_HIGHLEVEL_CODE cfg \<and> MR_USE_MINIMAL_MODEL_STACK_COPY cfg \<longrightarrow>
                 MR_gen_next (fst (MR_load_context cfg zone_min c' e2)) = MR_gen_next e \<and>
                 MR_cut_next (fst (MR_load_context cfg zone_min c' e2)) = MR_cut_next e \<and>
                 MR_pneg_next (fst (MR_load_context cfg zone_min c' e2)) = MR_pneg_next e \<and>
                 MR_gen_stack (fst (MR_load_context cfg zone_min c' e2)) = MR_gen_stack e \<and>
                 MR_cut_stack (fst (MR_load_context cfg zone_min c' e2)) = MR_cut_stack e \<and>
                 MR_pneg_stack (fst (MR_load_context cfg zone_min c' e2)) = MR_pneg_stack e) \<and>
              (MR_USE_TRAIL cfg \<longrightarrow>
                 MR_trail_zone (fst (MR_load_context cfg zone_min c' e2)) = MR_trail_zone e \<and>
                 MR_trail_ptr (fst (MR_load_context cfg zone_min c' e2)) = MR_trail_ptr e \<and>
                 MR_ticket_counter (fst (MR_load_context cfg zone_min c' e2)) =
                   MR_ticket_counter e \<and>
                 MR_ticket_high_water (fst (MR_load_context cfg zone_min c' e2)) =
                   MR_ticket_high_water e) \<and>
              (\<not> MR_CONSERVATIVE_GC cfg \<and> MR_hp e2 = MR_hp e \<longrightarrow>
                 MR_min_hp_rec (fst (MR_load_context cfg zone_min c' e2)) = MR_min_hp_rec e))"
proof -
  define c' where "c' = MR_save_hp_in_context cfg e (MR_save_context_zones cfg e
      (MR_save_context_trail cfg e (MR_save_context_regs cfg e c)))"
  have saved: "MR_save_context cfg zone_min e c = Inr c'"
    using assms(1) by (simp add: MR_save_context_def Let_def c'_def)
  have same: "map_sum id fst (MR_save_then_load cfg zone_min e c) = Inr e"
    using assms
    by (cases "MR_HIGHLEVEL_CODE cfg"; cases "MR_USE_MINIMAL_MODEL_STACK_COPY cfg";
        cases "MR_USE_TRAIL cfg"; cases "MR_CONSERVATIVE_GC cfg")
      (simp_all add: MR_save_then_load_def MR_load_defs MR_save_defs MR_save_context_asserts_def
        Let_def)
  have later: "(\<not> MR_HIGHLEVEL_CODE cfg \<longrightarrow>
                 MR_succip (fst (MR_load_context cfg zone_min c' e2)) = MR_succip e \<and>
                 MR_sp (fst (MR_load_context cfg zone_min c' e2)) = MR_sp e \<and>
                 MR_maxfr (fst (MR_load_context cfg zone_min c' e2)) = MR_maxfr e \<and>
                 MR_curfr (fst (MR_load_context cfg zone_min c' e2)) = MR_curfr e \<and>
                 MR_ctxt_detstack_zone (MR_eng_context (fst (MR_load_context cfg zone_min c' e2))) =
                   MR_ctxt_detstack_zone (MR_eng_context e) \<and>
                 MR_ctxt_nondetstack_zone (MR_eng_context (fst (MR_load_context cfg zone_min c' e2))) =
                   MR_ctxt_nondetstack_zone (MR_eng_context e)) \<and>
              (\<not> MR_HIGHLEVEL_CODE cfg \<and> MR_USE_MINIMAL_MODEL_STACK_COPY cfg \<longrightarrow>
                 MR_gen_next (fst (MR_load_context cfg zone_min c' e2)) = MR_gen_next e \<and>
                 MR_cut_next (fst (MR_load_context cfg zone_min c' e2)) = MR_cut_next e \<and>
                 MR_pneg_next (fst (MR_load_context cfg zone_min c' e2)) = MR_pneg_next e \<and>
                 MR_gen_stack (fst (MR_load_context cfg zone_min c' e2)) = MR_gen_stack e \<and>
                 MR_cut_stack (fst (MR_load_context cfg zone_min c' e2)) = MR_cut_stack e \<and>
                 MR_pneg_stack (fst (MR_load_context cfg zone_min c' e2)) = MR_pneg_stack e) \<and>
              (MR_USE_TRAIL cfg \<longrightarrow>
                 MR_trail_zone (fst (MR_load_context cfg zone_min c' e2)) = MR_trail_zone e \<and>
                 MR_trail_ptr (fst (MR_load_context cfg zone_min c' e2)) = MR_trail_ptr e \<and>
                 MR_ticket_counter (fst (MR_load_context cfg zone_min c' e2)) =
                   MR_ticket_counter e \<and>
                 MR_ticket_high_water (fst (MR_load_context cfg zone_min c' e2)) =
                   MR_ticket_high_water e) \<and>
              (\<not> MR_CONSERVATIVE_GC cfg \<and> MR_hp e2 = MR_hp e \<longrightarrow>
                 MR_min_hp_rec (fst (MR_load_context cfg zone_min c' e2)) = MR_min_hp_rec e)" for e2
    using assms unfolding c'_def
    by (cases "MR_HIGHLEVEL_CODE cfg"; cases "MR_USE_MINIMAL_MODEL_STACK_COPY cfg";
        cases "MR_USE_TRAIL cfg"; cases "MR_CONSERVATIVE_GC cfg")
      (simp_all add: MR_load_defs MR_save_context_regs_def MR_save_context_trail_def
        MR_save_context_zones_def MR_save_hp_in_context_def MR_save_context_asserts_def Let_def)
  from saved same later show ?thesis
    by blast
qed

theorem MR_save_then_load_reproduces_witness:
  "MR_save_context_asserts example_config example_zone_min example_engine \<and>
   MR_hp example_engine \<noteq> MR_NULL \<and>
   (\<exists>c'. MR_save_context example_config example_zone_min example_engine
            (example_context\<lparr>MR_ctxt_hp := MR_NULL\<rparr>) = Inr c' \<and>
      map_sum id fst (MR_save_then_load example_config example_zone_min example_engine
        (example_context\<lparr>MR_ctxt_hp := MR_NULL\<rparr>)) = Inr example_engine \<and>
      MR_succip (fst (MR_load_context example_config example_zone_min c' example_engine_later)) = 21 \<and>
      MR_sp (fst (MR_load_context example_config example_zone_min c' example_engine_later)) = 1500 \<and>
      MR_maxfr (fst (MR_load_context example_config example_zone_min c' example_engine_later)) = 2500 \<and>
      MR_curfr (fst (MR_load_context example_config example_zone_min c' example_engine_later)) = 2400 \<and>
      MR_trail_ptr (fst (MR_load_context example_config example_zone_min c' example_engine_later)) =
        3500 \<and>
      MR_ticket_counter (fst (MR_load_context example_config example_zone_min c'
        example_engine_later)) = 7 \<and>
      MR_ticket_high_water (fst (MR_load_context example_config example_zone_min c'
        example_engine_later)) = 9 \<and>
      MR_min_hp_rec (fst (MR_load_context example_config example_zone_min c' example_engine_later)) =
        4500)"
proof -
  have h1: "MR_save_context_asserts example_config example_zone_min example_engine"
    by (simp add: MR_save_context_asserts_def example_config_def example_engine_def
        example_context_def example_zone_min_def)
  have h2: "MR_hp example_engine \<noteq> MR_NULL"
    by (simp add: example_engine_def)
  have cfg: "\<not> MR_HIGHLEVEL_CODE example_config" "MR_USE_TRAIL example_config"
      "\<not> MR_CONSERVATIVE_GC example_config"
    by (simp_all add: example_config_def)
  have v: "MR_hp example_engine_later = MR_hp example_engine"
      "MR_succip example_engine = 21" "MR_sp example_engine = 1500"
      "MR_maxfr example_engine = 2500" "MR_curfr example_engine = 2400"
      "MR_trail_ptr example_engine = 3500" "MR_ticket_counter example_engine = 7"
      "MR_ticket_high_water example_engine = 9" "MR_min_hp_rec example_engine = 4500"
    by (simp_all add: example_engine_def example_engine_later_def)
  from MR_save_then_load_reproduces [OF h1 h2, where c = "example_context\<lparr>MR_ctxt_hp := MR_NULL\<rparr>"]
  obtain c' where c':
    "MR_save_context example_config example_zone_min example_engine
       (example_context\<lparr>MR_ctxt_hp := MR_NULL\<rparr>) = Inr c'"
    "map_sum id fst (MR_save_then_load example_config example_zone_min example_engine
        (example_context\<lparr>MR_ctxt_hp := MR_NULL\<rparr>)) = Inr example_engine"
    "\<forall>e2.
       (\<not> MR_HIGHLEVEL_CODE example_config \<longrightarrow>
          MR_succip (fst (MR_load_context example_config example_zone_min c' e2)) =
            MR_succip example_engine \<and>
          MR_sp (fst (MR_load_context example_config example_zone_min c' e2)) = MR_sp example_engine \<and>
          MR_maxfr (fst (MR_load_context example_config example_zone_min c' e2)) =
            MR_maxfr example_engine \<and>
          MR_curfr (fst (MR_load_context example_config example_zone_min c' e2)) =
            MR_curfr example_engine) \<and>
       (MR_USE_TRAIL example_config \<longrightarrow>
          MR_trail_ptr (fst (MR_load_context example_config example_zone_min c' e2)) =
            MR_trail_ptr example_engine \<and>
          MR_ticket_counter (fst (MR_load_context example_config example_zone_min c' e2)) =
            MR_ticket_counter example_engine \<and>
          MR_ticket_high_water (fst (MR_load_context example_config example_zone_min c' e2)) =
            MR_ticket_high_water example_engine) \<and>
       (\<not> MR_CONSERVATIVE_GC example_config \<and> MR_hp e2 = MR_hp example_engine \<longrightarrow>
          MR_min_hp_rec (fst (MR_load_context example_config example_zone_min c' e2)) =
            MR_min_hp_rec example_engine)"
    by blast
  from c'(3) [rule_format, of example_engine_later] cfg v c'(1,2) h1 h2 show ?thesis
    by (intro conjI exI [of _ c']) simp_all
qed

text \<open>
  The claim as stated fails on a state whose heap pointer is \<open>NULL\<close>: the saved
  heap pointer is then \<open>NULL\<close>, which \<open>MR_set_min_heap_reclamation_point\<close> takes for
  a context that never ran, and the reclamation point 4500 comes back as 0.
\<close>

theorem MR_save_then_load_null_hp_counterexample:
  "map_sum id (MR_min_hp_rec \<circ> fst)
     (MR_save_then_load example_config example_zone_min
        (example_engine\<lparr>MR_hp := MR_NULL\<rparr>) example_context) = Inr 0 \<and>
   MR_min_hp_rec (example_engine\<lparr>MR_hp := MR_NULL\<rparr>) = 4500"
  by (simp add: MR_save_then_load_def MR_load_defs MR_save_defs MR_save_context_asserts_def
      Let_def example_config_def example_engine_def example_context_def example_zone_min_def)

section \<open>Properties of the sync term\<close>

text \<open>
  C4, amended. \<open>MR_join_and_continue\<close> decrements the count. If the count reaches
  zero, control goes to \<open>where_to\<close> at once: the scheduler's state, the context
  structures and the resumee of the term are untouched. If the count stays
  positive, the state of the calling context is saved into its structure, whose
  resume address becomes \<open>where_to\<close>, the calling context becomes the resumee of
  the term, and the macro ends in \<open>MR_runnext()\<close>; the save aborts instead when the
  engine fails an \<open>assert\<close> of \<open>MR_save_context\<close>. If the decrement makes the count
  negative the call aborts on the \<open>assert\<close> of the macro.
\<close>

theorem MR_join_and_continue_cases:
  "(MR_st_count st = 1 \<longrightarrow>
      MR_join_and_continue cfg zone_min st where_to e rt =
        Inr (MR_GOTO where_to, st\<lparr>MR_st_count := 0\<rparr>, rt)) \<and>
   (1 < MR_st_count st \<and> MR_save_context_asserts cfg zone_min e \<longrightarrow>
      (\<exists>c. MR_save_context cfg zone_min e (MR_contexts rt (MR_eng_this_context e)) = Inr c \<and>
         MR_join_and_continue cfg zone_min st where_to e rt =
           Inr (MR_runnext,
                st\<lparr>MR_st_count := MR_st_count st - 1, MR_st_parent := MR_eng_this_context e\<rparr>,
                rt\<lparr>MR_contexts := (MR_contexts rt)
                      (MR_eng_this_context e := c\<lparr>MR_ctxt_resume := where_to\<rparr>)\<rparr>))) \<and>
   (1 < MR_st_count st \<and> \<not> MR_save_context_asserts cfg zone_min e \<longrightarrow>
      MR_join_and_continue cfg zone_min st where_to e rt = Inl MR_assertion_failed) \<and>
   (MR_st_count st < 1 \<longrightarrow>
      MR_join_and_continue cfg zone_min st where_to e rt = Inl MR_assertion_failed)"
  by (auto simp add: MR_join_and_continue_def MR_save_context_def Let_def)

theorem MR_join_and_continue_cases_witness:
  "MR_st_count (MR_init_sync_term 1) = 1 \<and>
   MR_join_and_continue example_config example_zone_min (MR_init_sync_term 1) 42
       example_engine example_runtime =
     Inr (MR_GOTO 42, (MR_init_sync_term 1)\<lparr>MR_st_count := 0\<rparr>, example_runtime) \<and>
   1 < MR_st_count (MR_init_sync_term 3) \<and>
   MR_save_context_asserts example_config example_zone_min example_engine \<and>
   (\<exists>c. MR_save_context example_config example_zone_min example_engine
            (MR_contexts example_runtime (MR_eng_this_context example_engine)) = Inr c \<and>
      MR_join_and_continue example_config example_zone_min (MR_init_sync_term 3) 42
          example_engine example_runtime =
        Inr (MR_runnext,
             (MR_init_sync_term 3)\<lparr>MR_st_count := MR_st_count (MR_init_sync_term 3) - 1,
                MR_st_parent := MR_eng_this_context example_engine\<rparr>,
             example_runtime\<lparr>MR_contexts := (MR_contexts example_runtime)
                (MR_eng_this_context example_engine := c\<lparr>MR_ctxt_resume := 42\<rparr>)\<rparr>))"
proof -
  have h1: "MR_st_count (MR_init_sync_term 1) = 1"
    by (simp add: MR_init_sync_term_def)
  have h2: "1 < MR_st_count (MR_init_sync_term 3)"
    by (simp add: MR_init_sync_term_def)
  have h3: "MR_save_context_asserts example_config example_zone_min example_engine"
    by (simp add: MR_save_context_asserts_def example_config_def example_engine_def
        example_context_def example_zone_min_def)
  from h1 h2 h3
    MR_join_and_continue_cases [where st = "MR_init_sync_term 1" and cfg = example_config
      and zone_min = example_zone_min and where_to = 42 and e = example_engine
      and rt = example_runtime]
    MR_join_and_continue_cases [where st = "MR_init_sync_term 3" and cfg = example_config
      and zone_min = example_zone_min and where_to = 42 and e = example_engine
      and rt = example_runtime]
  show ?thesis
    by blast
qed

text \<open>
  The claim as stated fails on a term whose count is already zero: the count
  does not reach zero, and the call aborts instead of saving the context.
\<close>

theorem MR_join_and_continue_counterexample:
  "MR_join_and_continue example_config example_zone_min
     \<lparr>MR_st_count = 0, MR_st_parent = 8\<rparr> 42 example_engine example_runtime =
   Inl MR_assertion_failed"
  by (simp add: MR_join_and_continue_def Let_def)




text \<open>
  C10. The count of a sync term never becomes negative: a join on a term whose
  count is zero (or less) fails the \<open>assert\<close> of the macro and aborts, whichever
  of the two macros it is, so it resumes nothing; and every join that returns
  has decremented the count by one and leaves it zero or positive.
\<close>

theorem MR_join_count_never_negative:
  "(MR_st_count st \<le> 0 \<longrightarrow>
      MR_join_and_terminate st e rt = Inl MR_assertion_failed \<and>
      MR_join_and_continue cfg zone_min st where_to e rt = Inl MR_assertion_failed) \<and>
   (\<forall>ctl st' rt'. MR_join_and_terminate st e rt = Inr (ctl, st', rt') \<longrightarrow>
      0 \<le> MR_st_count st' \<and> MR_st_count st' = MR_st_count st - 1) \<and>
   (\<forall>ctl st' rt'. MR_join_and_continue cfg zone_min st where_to e rt = Inr (ctl, st', rt') \<longrightarrow>
      0 \<le> MR_st_count st' \<and> MR_st_count st' = MR_st_count st - 1)"
  by (auto simp add: MR_join_and_terminate_def MR_join_and_continue_def Let_def
      split: if_splits sum.splits)

theorem MR_join_count_never_negative_witness:
  "MR_st_count \<lparr>MR_st_count = 0, MR_st_parent = 9\<rparr> \<le> 0 \<and>
   MR_join_and_terminate \<lparr>MR_st_count = 0, MR_st_parent = 9\<rparr> example_engine example_runtime =
     Inl MR_assertion_failed \<and>
   MR_join_and_continue example_config example_zone_min \<lparr>MR_st_count = 0, MR_st_parent = 9\<rparr> 42
     example_engine example_runtime = Inl MR_assertion_failed \<and>
   MR_join_and_terminate \<lparr>MR_st_count = 1, MR_st_parent = 9\<rparr> example_engine example_runtime =
     Inr (MR_runnext, \<lparr>MR_st_count = 0, MR_st_parent = 9\<rparr>,
          example_runtime\<lparr>MR_runqueue := [8, 9], MR_free_contexts := [7]\<rparr>) \<and>
   0 \<le> MR_st_count \<lparr>MR_st_count = 0, MR_st_parent = 9\<rparr>"
proof -
  have h: "MR_st_count \<lparr>MR_st_count = 0, MR_st_parent = 9\<rparr> \<le> 0"
    by simp
  have r: "MR_join_and_terminate \<lparr>MR_st_count = 1, MR_st_parent = 9\<rparr> example_engine
      example_runtime =
     Inr (MR_runnext, \<lparr>MR_st_count = 0, MR_st_parent = 9\<rparr>,
          example_runtime\<lparr>MR_runqueue := [8, 9], MR_free_contexts := [7]\<rparr>)"
    by (simp add: MR_join_and_terminate_def MR_schedule_def MR_destroy_context_def
        MR_context_linked_def Let_def example_engine_def example_runtime_def)
  from h r
    MR_join_count_never_negative [where st = "\<lparr>MR_st_count = 0, MR_st_parent = 9\<rparr>"
      and e = example_engine and rt = example_runtime and cfg = example_config
      and zone_min = example_zone_min and where_to = 42]
    MR_join_count_never_negative [where st = "\<lparr>MR_st_count = 1, MR_st_parent = 9\<rparr>"
      and e = example_engine and rt = example_runtime and cfg = example_config
      and zone_min = example_zone_min and where_to = 42]
  show ?thesis
    by simp
qed

subsection \<open>A sequence of joins\<close>

text \<open>
  A call that leaves the count positive resumes nothing; the call that brings
  the count to zero resumes the context \<open>p\<close> of the continuing branch.
\<close>

lemma MR_join_not_last:
  assumes "1 < MR_st_count st" and "MR_join_call_ok cfg zone_min p c"
  shows "\<exists>ctl st' rt'. MR_join cfg zone_min st c = Inr (ctl, st', rt') \<and>
           MR_resumptions (MR_join_caller c) (MR_join_call_before c) ctl rt' = [] \<and>
           MR_st_count st' = MR_st_count st - 1 \<and>
           MR_st_parent st' = (if MR_is_continue_call c then p else MR_st_parent st)"
proof (cases c)
  case (MR_terminate_call e rt)
  with assms show ?thesis
    by (simp add: MR_join_and_terminate_def MR_destroy_context_def MR_resumptions_def Let_def)
next
  case (MR_continue_call where_to e rt)
  with assms obtain c' where
    "MR_save_context cfg zone_min e (MR_contexts rt (MR_eng_this_context e)) = Inr c'"
    using MR_save_context_completes by fastforce
  with assms MR_continue_call show ?thesis
    by (simp add: MR_join_and_continue_def MR_resumptions_def Let_def)
qed

lemma MR_join_last:
  assumes "MR_st_count st = 1" and "MR_join_call_ok cfg zone_min p c"
    and "MR_is_continue_call c \<or> (MR_st_parent st = p \<and> p \<noteq> MR_NULL)"
  shows "\<exists>ctl st' rt'. MR_join cfg zone_min st c = Inr (ctl, st', rt') \<and>
           MR_resumptions (MR_join_caller c) (MR_join_call_before c) ctl rt' = [p] \<and>
           MR_st_count st' = 0"
proof (cases c)
  case (MR_terminate_call e rt)
  with assms show ?thesis
    by (simp add: MR_join_and_terminate_def MR_destroy_context_def MR_schedule_def
        MR_context_linked_def MR_resumptions_def Let_def)
next
  case (MR_continue_call where_to e rt)
  with assms show ?thesis
    by (simp add: MR_join_and_continue_def MR_resumptions_def Let_def)
qed

lemma MR_joins_exact:
  assumes "MR_st_count st = int (length cs)" and "cs \<noteq> []"
    and "list_all (MR_join_call_ok cfg zone_min p) cs"
    and "(MR_st_parent st = p \<and> p \<noteq> MR_NULL \<and> filter MR_is_continue_call cs = []) \<or>
         length (filter MR_is_continue_call cs) = 1"
  shows "\<exists>st'. MR_joins cfg zone_min st cs = Inr (replicate (length cs - 1) [] @ [[p]], st') \<and>
           MR_st_count st' = 0"
  using assms
proof (induction cs arbitrary: st)
  case Nil
  then show ?case by simp
next
  case (Cons c cs)
  have ok: "MR_join_call_ok cfg zone_min p c"
    using Cons.prems(3) by simp
  show ?case
  proof (cases "cs = []")
    case True
    with Cons.prems have "MR_st_count st = 1"
      "MR_is_continue_call c \<or> (MR_st_parent st = p \<and> p \<noteq> MR_NULL)"
      by (auto split: if_splits)
    from MR_join_last [OF this(1) ok this(2)] True show ?thesis
      by auto
  next
    case False
    with Cons.prems have "1 < MR_st_count st"
      by (cases cs; simp)
    from MR_join_not_last [OF this ok] obtain ctl st1 rt1 where
      j: "MR_join cfg zone_min st c = Inr (ctl, st1, rt1)"
        "MR_resumptions (MR_join_caller c) (MR_join_call_before c) ctl rt1 = []"
        "MR_st_count st1 = MR_st_count st - 1"
        "MR_st_parent st1 = (if MR_is_continue_call c then p else MR_st_parent st)"
      by blast
    have pn: "MR_is_continue_call c \<Longrightarrow> p \<noteq> MR_NULL"
      using ok by (cases c) simp_all
    have "MR_st_count st1 = int (length cs)"
      using j(3) Cons.prems(1) by simp
    moreover have "list_all (MR_join_call_ok cfg zone_min p) cs"
      using Cons.prems(3) by simp
    moreover have "(MR_st_parent st1 = p \<and> p \<noteq> MR_NULL \<and> filter MR_is_continue_call cs = []) \<or>
         length (filter MR_is_continue_call cs) = 1"
      using j(4) Cons.prems(4) pn by (cases "MR_is_continue_call c") auto
    ultimately obtain st' where
      "MR_joins cfg zone_min st1 cs = Inr (replicate (length cs - 1) [] @ [[p]], st')"
      "MR_st_count st' = 0"
      using Cons.IH [OF _ False] by blast
    with j(1,2) False show ?thesis
      by (cases cs) auto
  qed
qed

text \<open>Without a \<open>MR_join_and_continue\<close> the last call finds no resumee and aborts.\<close>

lemma MR_joins_without_continue_abort:
  assumes "MR_st_count st = int (length cs)" and "cs \<noteq> []"
    and "list_all (MR_join_call_ok cfg zone_min p) cs"
    and "MR_st_parent st = MR_NULL" and "filter MR_is_continue_call cs = []"
  shows "MR_joins cfg zone_min st cs = Inl MR_assertion_failed"
  using assms
proof (induction cs arbitrary: st)
  case Nil
  then show ?case by simp
next
  case (Cons c cs)
  then obtain e rt where c: "c = MR_terminate_call e rt"
    by (cases c) auto
  show ?case
  proof (cases "cs = []")
    case True
    with Cons.prems c show ?thesis
      by (simp add: MR_join_and_terminate_def Let_def)
  next
    case False
    with Cons.prems have "1 < MR_st_count st"
      by (cases cs; simp)
    with c Cons.prems have
      "\<exists>rt'. MR_join cfg zone_min st c =
         Inr (MR_runnext, st\<lparr>MR_st_count := MR_st_count st - 1\<rparr>, rt')"
      by (simp add: MR_join_and_terminate_def MR_destroy_context_def Let_def)
    moreover have
      "MR_joins cfg zone_min (st\<lparr>MR_st_count := MR_st_count st - 1\<rparr>) cs = Inl MR_assertion_failed"
      using Cons.prems False c by (intro Cons.IH) auto
    ultimately show ?thesis by auto
  qed
qed

text \<open>
  C2, amended. Take a sync term initialised with \<open>N\<close> branches and no resumee, and
  any sequence of exactly \<open>N\<close> calls of \<open>MR_join_and_terminate\<close> and
  \<open>MR_join_and_continue\<close> on it, in any order and in any states of the scheduler,
  of which exactly one is a \<open>MR_join_and_continue\<close> (so \<open>N \<ge> 1\<close>). The calls are
  those of running contexts: the \<open>MR_join_and_continue\<close> is made by a context \<open>p\<close>
  on an engine that passes the \<open>assert\<close>s of \<open>MR_save_context\<close>, and each
  \<open>MR_join_and_terminate\<close> by another context, which is not linked into the run
  queue or the pending list. Then every call returns, and the resumee \<open>p\<close> is
  rescheduled or continued exactly once, at the \<open>N\<close>th call, which brings the
  count to zero: the first \<open>N - 1\<close> calls resume no context, and the \<open>N\<close>th call
  resumes \<open>p\<close> and no other context.
\<close>

theorem MR_joins_resume_exactly_once:
  assumes "list_all (MR_join_call_ok cfg zone_min p) calls"
    and "length (filter MR_is_continue_call calls) = 1"
  shows "\<exists>st'. MR_joins cfg zone_min (MR_init_sync_term (int (length calls))) calls =
             Inr (replicate (length calls - 1) [] @ [[p]], st') \<and>
           MR_st_count st' = 0"
proof -
  from assms(2) have "calls \<noteq> []" by auto
  with MR_joins_exact [of "MR_init_sync_term (int (length calls))" calls cfg zone_min p] assms
  show ?thesis
    by (simp add: MR_init_sync_term_def)
qed

theorem MR_joins_resume_exactly_once_witness:
  "list_all (MR_join_call_ok example_config example_zone_min 7)
     [MR_terminate_call (example_engine\<lparr>MR_eng_this_context := 5\<rparr>) example_runtime,
      MR_continue_call 42 example_engine example_runtime,
      MR_terminate_call (example_engine\<lparr>MR_eng_this_context := 9\<rparr>) example_runtime] \<and>
   length (filter MR_is_continue_call
     [MR_terminate_call (example_engine\<lparr>MR_eng_this_context := 5\<rparr>) example_runtime,
      MR_continue_call 42 example_engine example_runtime,
      MR_terminate_call (example_engine\<lparr>MR_eng_this_context := 9\<rparr>) example_runtime]) = 1 \<and>
   (\<exists>st'. MR_joins example_config example_zone_min (MR_init_sync_term 3)
       [MR_terminate_call (example_engine\<lparr>MR_eng_this_context := 5\<rparr>) example_runtime,
        MR_continue_call 42 example_engine example_runtime,
        MR_terminate_call (example_engine\<lparr>MR_eng_this_context := 9\<rparr>) example_runtime] =
      Inr ([[], [], [7]], st') \<and> MR_st_count st' = 0)"
proof -
  let ?calls = "[MR_terminate_call (example_engine\<lparr>MR_eng_this_context := 5\<rparr>) example_runtime,
      MR_continue_call 42 example_engine example_runtime,
      MR_terminate_call (example_engine\<lparr>MR_eng_this_context := 9\<rparr>) example_runtime]"
  have h1: "list_all (MR_join_call_ok example_config example_zone_min 7) ?calls"
    by (simp add: MR_save_context_asserts_def MR_context_linked_def example_config_def
        example_engine_def example_context_def example_zone_min_def example_runtime_def)
  have h2: "length (filter MR_is_continue_call ?calls) = 1"
    by simp
  from h1 h2 MR_joins_resume_exactly_once [OF h1 h2] show ?thesis
    by (simp add: numeral_3_eq_3)
qed

text \<open>
  The claim as stated fails when no call is a \<open>MR_join_and_continue\<close>: with one
  branch and one \<open>MR_join_and_terminate\<close>, the call aborts on the \<open>assert\<close> that
  the term has a resumee, and nothing is resumed. It also fails when two calls
  are a \<open>MR_join_and_continue\<close>: with two branches, the context 7 of the first call
  is saved and becomes the resumee, the second call brings the count to zero and
  context 9 continues at its label, and the resumee 7 is never resumed. And it
  fails when the last \<open>MR_join_and_terminate\<close> comes from a context that is still
  linked, here context 8 of the run queue: the process aborts in
  \<open>MR_destroy_context\<close>.
\<close>

theorem MR_joins_counterexample:
  "MR_joins example_config example_zone_min (MR_init_sync_term 1)
     [MR_terminate_call example_engine example_runtime] = Inl MR_assertion_failed \<and>
   MR_joins example_config example_zone_min (MR_init_sync_term 2)
     [MR_continue_call 41 example_engine example_runtime,
      MR_continue_call 42 (example_engine\<lparr>MR_eng_this_context := 9\<rparr>) example_runtime] =
     Inr ([[], [9]], \<lparr>MR_st_count = 0, MR_st_parent = 7\<rparr>) \<and>
   MR_joins example_config example_zone_min (MR_init_sync_term 2)
     [MR_continue_call 41 example_engine example_runtime,
      MR_terminate_call (example_engine\<lparr>MR_eng_this_context := 8\<rparr>) example_runtime] =
     Inl MR_fatal_still_linked"
  by (simp add: MR_init_sync_term_def MR_join_and_terminate_def MR_join_and_continue_def
      MR_save_context_def MR_save_context_asserts_def MR_resumptions_def MR_destroy_context_def
      MR_schedule_def MR_context_linked_def Let_def example_config_def example_engine_def
      example_context_def example_zone_min_def example_runtime_def)

section \<open>Properties of running the next context\<close>

lemma MR_do_runnext_fails:
  "(MR_do_runnext busy waits rt = Inl f) =
     (f = MR_fatal_deadlock \<and> MR_runqueue rt = [] \<and> MR_pending_contexts rt = [] \<and> busy = 0)"
proof (induction busy waits rt rule: MR_do_runnext.induct)
  case (1 busy waits rt)
  show ?case
  proof (cases "MR_runqueue rt")
    case (Cons c cs)
    then show ?thesis by simp
  next
    case Nil
    show ?thesis
    proof (cases "MR_pending_contexts rt = []")
      case True
      with Nil show ?thesis by (auto simp add: MR_flounder_def)
    next
      case False
      show ?thesis
      proof (cases waits)
        case Nil': Nil
        with Nil False show ?thesis by simp
      next
        case (Cons ready waits')
        let ?rt = "rt\<lparr>MR_runqueue := MR_runqueue rt @ map MR_pc_context (filter ready (MR_pending_contexts rt)),
                      MR_pending_contexts := filter (\<lambda>p. \<not> ready p) (MR_pending_contexts rt)\<rparr>"
        have "MR_runqueue ?rt \<noteq> [] \<or> MR_pending_contexts ?rt \<noteq> []"
        proof (cases "filter ready (MR_pending_contexts rt) = []")
          case True
          then have "filter (\<lambda>p. \<not> ready p) (MR_pending_contexts rt) = MR_pending_contexts rt"
            by (simp add: filter_empty_conv)
          with False show ?thesis by simp
        next
          case False
          then show ?thesis by simp
        qed
        with "1.IH" [OF Nil False Cons] Nil False Cons show ?thesis
          by auto
      qed
    qed
  qed
qed

text \<open>
  C9. \<open>run_next()\<close> ends in \<open>flounder()\<close> if and only if the run queue is empty,
  no context is pending on I/O and no other engine is executing a context.
  Floundering is the fatal deadlock error: it yields no context to run and no
  scheduler state, and it is the only failure of \<open>run_next()\<close>. It does not happen
  while another engine is executing a context or an entry is pending.
\<close>

theorem MR_flounder_exact:
  "(MR_do_runnext busy waits rt = MR_flounder) =
     (MR_runqueue rt = [] \<and> MR_pending_contexts rt = [] \<and> busy = 0) \<and>
   MR_flounder = (Inl MR_fatal_deadlock :: MR_failure + MR_dispatch) \<and>
   (\<forall>f. MR_do_runnext busy waits rt = Inl f \<longrightarrow> f = MR_fatal_deadlock) \<and>
   (0 < busy \<or> MR_pending_contexts rt \<noteq> [] \<longrightarrow> MR_do_runnext busy waits rt \<noteq> MR_flounder)"
  using MR_do_runnext_fails [of busy waits rt MR_fatal_deadlock]
  by (auto simp add: MR_flounder_def MR_do_runnext_fails simp del: MR_do_runnext.simps)

theorem MR_flounder_exact_witness:
  "MR_do_runnext 0 [] (example_runtime\<lparr>MR_runqueue := []\<rparr>) = MR_flounder \<and>
   0 < (1 :: nat) \<and>
   MR_do_runnext 1 [] (example_runtime\<lparr>MR_runqueue := []\<rparr>) \<noteq> MR_flounder \<and>
   MR_do_runnext 0 [] example_runtime \<noteq> MR_flounder"
proof -
  have v: "MR_runqueue (example_runtime\<lparr>MR_runqueue := []\<rparr>) = []"
    "MR_pending_contexts (example_runtime\<lparr>MR_runqueue := []\<rparr>) = []"
    "MR_runqueue example_runtime = [8]"
    by (simp_all add: example_runtime_def)
  from v
    MR_flounder_exact [of 0 "[]" "example_runtime\<lparr>MR_runqueue := []\<rparr>"]
    MR_flounder_exact [of 1 "[]" "example_runtime\<lparr>MR_runqueue := []\<rparr>"]
    MR_flounder_exact [of 0 "[]" example_runtime]
  show ?thesis
    by simp
qed

end
